theory Spec2Isabelle
  imports Main "HOL-Library.Word" "HOL-Library.AList"
begin

section \<open>The in-memory metadata store of \<^verbatim>\<open>storage/memorystore.go\<close>\<close>

subsection \<open>Data model\<close>

text \<open>
  A Go \<^verbatim>\<open>[]byte\<close> is a list of 8-bit words. A Go \<^verbatim>\<open>map[data.RoleName][]byte\<close> is an
  association list: \<^verbatim>\<open>m[k]\<close> is \<open>map_of\<close>, \<^verbatim>\<open>m[k] = v\<close> is \<open>AList.update\<close> and
  \<^verbatim>\<open>delete(m, k)\<close> is \<open>AList.delete\<close>. The order of the list stands for the order in
  which \<^verbatim>\<open>range\<close> visits the map, which Go leaves unspecified: statements about
  \<^verbatim>\<open>range\<close> loops below are made for every order or up to order.
  \<^verbatim>\<open>data.RoleName\<close> is a string type, and the conversions between it and \<^verbatim>\<open>string\<close>
  are the identity.
\<close>

type_synonym byte = "8 word"
type_synonym blob = "byte list"
type_synonym RoleName = string
type_synonym gomap = "(RoleName \<times> blob) list"

record MemoryStore =
  data :: gomap
  consistent :: gomap

text \<open>
  The two ways a call can fail: the error value \<^verbatim>\<open>ErrMetaNotFound{Resource: name}\<close>,
  and the run-time panic of a slice expression whose bound is out of range.
\<close>

datatype error = ErrMetaNotFound string | PanicSliceBounds

subsection \<open>What the source imports\<close>

text \<open>
  The source file calls into other packages, and reads two constants that it does not
  declare. They are parameters of the model:
  \<^item> \<open>Sum256\<close> is \<^verbatim>\<open>sha256.Sum256\<close>;
  \<^item> \<open>ConsistentName\<close> is \<^verbatim>\<open>utils.ConsistentName\<close>;
  \<^item> \<open>Unmarshal\<close> is \<^verbatim>\<open>json.Unmarshal\<close> into a fresh \<^verbatim>\<open>data.SignedMeta\<close>: \<open>None\<close> when
    it returns an error, otherwise the field \<^verbatim>\<open>Signed.Version\<close> (a Go \<^verbatim>\<open>int\<close>) of the
    parsed value;
  \<^item> \<open>NoSizeLimit\<close> and \<open>MaxDownloadSize\<close> are the \<^verbatim>\<open>int64\<close> constants
    \<^verbatim>\<open>NoSizeLimit\<close> and \<^verbatim>\<open>notary.MaxDownloadSize\<close>.
\<close>

record deps =
  Sum256 :: "blob \<Rightarrow> blob"
  ConsistentName :: "RoleName \<Rightarrow> blob \<Rightarrow> string"
  Unmarshal :: "blob \<Rightarrow> int option"
  NoSizeLimit :: "64 word"
  MaxDownloadSize :: "64 word"

subsection \<open>Formatting and slicing\<close>

text \<open>\<^verbatim>\<open>fmt.Sprintf("%d.%s", version, name)\<close>: the decimal digits of the version, with a
  minus sign when it is negative, a dot and the name.\<close>

definition digit :: "nat \<Rightarrow> char" where
  "digit n = ''0123456789'' ! n"

fun decimal :: "nat \<Rightarrow> string" where
  "decimal n = (if n < 10 then [digit n] else decimal (n div 10) @ [digit (n mod 10)])"

declare decimal.simps [simp del]

definition Sprintf_d :: "int \<Rightarrow> string" where
  "Sprintf_d i = (if i < 0 then CHR ''-'' # decimal (nat (- i)) else decimal (nat i))"

definition versionedName :: "int \<Rightarrow> string \<Rightarrow> string" where
  "versionedName version name = Sprintf_d version @ ''.'' @ name"

text \<open>Reading decimal notation back, most significant digit first. It is not part of
  the source: it states below what \<open>decimal\<close> writes.\<close>

definition read_decimal :: "string \<Rightarrow> nat" where
  "read_decimal ds = foldl (\<lambda>a c. 10 * a + (of_char c - 48)) 0 ds"

text \<open>
  The slice expression \<^verbatim>\<open>d[:size]\<close> with an \<^verbatim>\<open>int64\<close> bound: it panics when the bound is
  negative or beyond the slice, and is the first \<^verbatim>\<open>size\<close> bytes otherwise. (Go allows a
  bound up to the capacity; both slice expressions of the source run only when the
  bound is at most the length. The parameter \<^verbatim>\<open>size\<close> is written \<open>sz\<close>.)
\<close>

definition slice_to :: "blob \<Rightarrow> 64 word \<Rightarrow> error + blob" where
  "slice_to d sz =
     (if sint sz < 0 \<or> int (length d) < sint sz then Inl PanicSliceBounds
      else Inr (take (nat (sint sz)) d))"

subsection \<open>The operations\<close>

text \<open>
  \<^verbatim>\<open>NewMemoryStore\<close>. The argument is \<open>None\<close> for a nil map, and otherwise the seed
  entries in the order in which the \<^verbatim>\<open>range\<close> loop visits them. \<open>add_seed\<close> is that
  loop, started on the entries still to visit and the map \<^verbatim>\<open>consistent\<close> built so far.
\<close>

fun add_seed :: "deps \<Rightarrow> gomap \<Rightarrow> gomap \<Rightarrow> gomap" where
  "add_seed im [] c = c"
| "add_seed im ((name, d) # rest) c =
     (let checksum = Sum256 im d;
          path = ConsistentName im name checksum
      in add_seed im rest (AList.update path d c))"

definition NewMemoryStore :: "deps \<Rightarrow> gomap option \<Rightarrow> MemoryStore" where
  "NewMemoryStore im initial =
     (case initial of
        None \<Rightarrow> \<lparr>data = [], consistent = []\<rparr>
      | Some seed \<Rightarrow> \<lparr>data = seed, consistent = add_seed im seed []\<rparr>)"

text \<open>
  \<^verbatim>\<open>GetSized\<close>. The comparison \<^verbatim>\<open>int64(len(d)) < size\<close> is a signed one; the length of a
  Go slice fits an \<^verbatim>\<open>int64\<close>, so it is compared as an integer with the signed value of
  \<^verbatim>\<open>size\<close>. Only the first branch replaces \<^verbatim>\<open>NoSizeLimit\<close>.
\<close>

definition GetSized :: "deps \<Rightarrow> MemoryStore \<Rightarrow> string \<Rightarrow> 64 word \<Rightarrow> error + blob" where
  "GetSized im m name sz =
     (case map_of (data m) name of
        Some d \<Rightarrow>
          (let size1 = (if sz = NoSizeLimit im then MaxDownloadSize im else sz)
           in if int (length d) < sint size1 then Inr d else slice_to d size1)
      | None \<Rightarrow>
          (case map_of (consistent m) name of
             Some d \<Rightarrow> if int (length d) < sint sz then Inr d else slice_to d sz
           | None \<Rightarrow> Inl (ErrMetaNotFound name)))"

definition Get :: "MemoryStore \<Rightarrow> string \<Rightarrow> error + blob" where
  "Get m name =
     (case map_of (data m) name of
        Some d \<Rightarrow> Inr d
      | None \<Rightarrow>
          (case map_of (consistent m) name of
             Some d \<Rightarrow> Inr d
           | None \<Rightarrow> Inl (ErrMetaNotFound name)))"

text \<open>The mutating methods return the error value (\<open>None\<close> is \<^verbatim>\<open>nil\<close>) and the store
  after the call.\<close>

definition Set :: "deps \<Rightarrow> MemoryStore \<Rightarrow> string \<Rightarrow> blob \<Rightarrow> error option \<times> MemoryStore" where
  "Set im m name meta =
     (let d1 = AList.update name meta (data m);
          d2 = (case Unmarshal im meta of
                  Some version \<Rightarrow> AList.update (versionedName version name) meta d1
                | None \<Rightarrow> d1);
          checksum = Sum256 im meta;
          path = ConsistentName im name checksum
      in (None, \<lparr>data = d2, consistent = AList.update path meta (consistent m)\<rparr>))"

fun SetMulti :: "deps \<Rightarrow> MemoryStore \<Rightarrow> gomap \<Rightarrow> error option \<times> MemoryStore" where
  "SetMulti im m [] = (None, m)"
| "SetMulti im m ((role, blob) # metas) = SetMulti im (snd (Set im m role blob)) metas"

definition Remove :: "deps \<Rightarrow> MemoryStore \<Rightarrow> string \<Rightarrow> error option \<times> MemoryStore" where
  "Remove im m name =
     (case map_of (data m) name of
        Some meta \<Rightarrow>
          (let checksum = Sum256 im meta;
               path = ConsistentName im name checksum
           in (None, \<lparr>data = AList.delete name (data m),
                      consistent = AList.delete path (consistent m)\<rparr>))
      | None \<Rightarrow> (None, m))"

definition RemoveAll :: "deps \<Rightarrow> MemoryStore \<Rightarrow> error option \<times> MemoryStore" where
  "RemoveAll im m = (None, NewMemoryStore im None)"

definition Location :: "MemoryStore \<Rightarrow> string" where
  "Location m = ''memory''"

definition ListFiles :: "MemoryStore \<Rightarrow> string list" where
  "ListFiles m = map fst (data m)"

subsection \<open>Concrete parameters for evaluation\<close>

text \<open>
  To run the model on concrete inputs the parameters need values. The two constants
  get the values of the upstream declarations (\<^verbatim>\<open>NoSizeLimit int64 = -1\<close> and
  \<^verbatim>\<open>MaxDownloadSize int64 = 100 << 20\<close>). The naming function follows the upstream
  format, the role, a dot and the digest in hexadecimal. The digest and the parser are
  stand-ins, not SHA-256 and not a JSON parser: the digest of a blob is the blob, and
  a blob parses when it starts with an opening brace, its version being the byte that
  follows.
\<close>

definition hexbyte :: "byte \<Rightarrow> string" where
  "hexbyte b = [''0123456789abcdef'' ! (unat b div 16), ''0123456789abcdef'' ! (unat b mod 16)]"

definition demo_ConsistentName :: "RoleName \<Rightarrow> blob \<Rightarrow> string" where
  "demo_ConsistentName role h = role @ ''.'' @ concat (map hexbyte h)"

fun demo_Unmarshal :: "blob \<Rightarrow> int option" where
  "demo_Unmarshal (b # v # rest) = (if b = 123 then Some (uint v) else None)"
| "demo_Unmarshal _ = None"

definition demo :: deps where
  "demo = \<lparr>Sum256 = (\<lambda>d. d), ConsistentName = demo_ConsistentName,
           Unmarshal = demo_Unmarshal, NoSizeLimit = - 1, MaxDownloadSize = 104857600\<rparr>"

definition empty_store :: MemoryStore where
  "empty_store = NewMemoryStore demo None"

section \<open>Properties\<close>

subsection \<open>Lookup after the map operations\<close>

lemma versionedName_neq: "versionedName v name \<noteq> name"
proof
  assume "versionedName v name = name"
  then have "length (versionedName v name) = length name" by simp
  then show False by (simp add: versionedName_def)
qed

text \<open>
  What \<open>decimal\<close> writes is the decimal notation of its argument: digits only, read
  back as the number, and no leading zero on a positive number.
\<close>

lemma digit_value: "k < 10 \<Longrightarrow> (of_char (digit k) :: nat) = 48 + k"
proof -
  assume "k < 10"
  then have "k \<in> {0, 1, 2, 3, 4, 5, 6, 7, 8, 9}" by auto
  then show ?thesis by (auto simp add: digit_def)
qed

lemma read_decimal_snoc: "read_decimal (ds @ [c]) = 10 * read_decimal ds + (of_char c - 48)"
  by (simp add: read_decimal_def)

lemma read_decimal_decimal: "read_decimal (decimal n) = n"
proof (induction n rule: decimal.induct)
  case (1 n)
  show ?case
  proof (cases "n < 10")
    case True
    then show ?thesis
      by (subst decimal.simps) (simp add: read_decimal_def digit_value)
  next
    case False
    then have "read_decimal (decimal (n div 10)) = n div 10" by (rule "1.IH")
    with False show ?thesis
      by (subst decimal.simps) (simp add: read_decimal_snoc digit_value)
  qed
qed

lemma decimal_digits: "set (decimal n) \<subseteq> set ''0123456789''"
proof (induction n rule: decimal.induct)
  case (1 n)
  have d: "digit k \<in> set ''0123456789''" if "k < 10" for k
  proof -
    from that have "k < length ''0123456789''" by simp
    then show ?thesis unfolding digit_def by (rule nth_mem)
  qed
  show ?case
  proof (cases "n < 10")
    case True
    then show ?thesis by (subst decimal.simps) (use d [of n] in simp)
  next
    case False
    then have "set (decimal (n div 10)) \<subseteq> set ''0123456789''" by (rule "1.IH")
    with False d [of "n mod 10"] show ?thesis
      by (subst decimal.simps) simp
  qed
qed

lemma decimal_not_empty: "decimal n \<noteq> []"
  by (subst decimal.simps) auto

lemma decimal_no_leading_zero: "0 < n \<Longrightarrow> hd (decimal n) \<noteq> CHR ''0''"
proof (induction n rule: decimal.induct)
  case (1 n)
  show ?case
  proof (cases "n < 10")
    case True
    with "1.prems" have "n \<in> {1, 2, 3, 4, 5, 6, 7, 8, 9}" by auto
    then show ?thesis by (subst decimal.simps) (auto simp add: digit_def)
  next
    case False
    then have "0 < n div 10" by simp
    with False have "hd (decimal (n div 10)) \<noteq> CHR ''0''" by (intro "1.IH")
    with False decimal_not_empty [of "n div 10"] show ?thesis
      by (subst decimal.simps) simp
  qed
qed

lemma Set_error: "fst (Set im m name meta) = None"
  by (simp add: Set_def Let_def)

lemma Set_data:
  "map_of (data (snd (Set im m name meta))) =
     (case Unmarshal im meta of
        Some v \<Rightarrow> (map_of (data m))(name \<mapsto> meta, versionedName v name \<mapsto> meta)
      | None \<Rightarrow> (map_of (data m))(name \<mapsto> meta))"
  by (simp add: Set_def Let_def update_conv' split: option.split)

lemma Set_consistent:
  "map_of (consistent (snd (Set im m name meta))) =
     (map_of (consistent m))(ConsistentName im name (Sum256 im meta) \<mapsto> meta)"
  by (simp add: Set_def Let_def update_conv')

lemma Remove_error: "fst (Remove im m name) = None"
  by (simp add: Remove_def Let_def split: option.split)

lemma Remove_data:
  "map_of (data (snd (Remove im m name))) = (map_of (data m))(name := None)"
  by (auto simp add: Remove_def Let_def delete_conv' fun_eq_iff split: option.split)

lemma Remove_consistent:
  "map_of (data m) name = Some meta \<Longrightarrow>
   map_of (consistent (snd (Remove im m name))) =
     (map_of (consistent m))(ConsistentName im name (Sum256 im meta) := None)"
  by (simp add: Remove_def Let_def delete_conv')

text \<open>
  On a name that only the digest index holds, \<^verbatim>\<open>GetSized\<close> never reads the two
  constants: the requested size is the bound, whatever it is. A negative size passes
  the comparison with the length and reaches the slice expression.
\<close>

lemma GetSized_digest_only:
  "map_of (data m) name = None \<Longrightarrow> map_of (consistent m) name = Some d \<Longrightarrow>
   GetSized im m name sz = (if int (length d) < sint sz then Inr d else slice_to d sz)"
  by (simp add: GetSized_def)

lemma GetSized_digest_only_negative:
  "map_of (data m) name = None \<Longrightarrow> map_of (consistent m) name = Some d \<Longrightarrow> sint sz < 0 \<Longrightarrow>
   GetSized im m name sz = Inl PanicSliceBounds"
  by (simp add: GetSized_digest_only slice_to_def)

text \<open>Were the sentinel not negative, it would itself be the bound on such a name, not
  the maximum download size.\<close>

lemma GetSized_digest_only_sentinel:
  "map_of (data m) name = None \<Longrightarrow> map_of (consistent m) name = Some d \<Longrightarrow>
   0 \<le> sint (NoSizeLimit im) \<Longrightarrow>
   GetSized im m name (NoSizeLimit im) =
     Inr (if int (length d) < sint (NoSizeLimit im) then d
          else take (nat (sint (NoSizeLimit im))) d)"
  by (simp add: GetSized_digest_only slice_to_def)

lemma add_seed_snoc:
  "add_seed im (xs @ [(n, d)]) c =
     AList.update (ConsistentName im n (Sum256 im d)) d (add_seed im xs c)"
  by (induction xs arbitrary: c) (auto simp add: Let_def)

text \<open>A name that is the consistent name of no seed entry is not touched by the loop.\<close>

lemma add_seed_other:
  "\<forall>(n, d) \<in> set seed. ConsistentName im n (Sum256 im d) \<noteq> p \<Longrightarrow>
   map_of (add_seed im seed c) p = map_of c p"
proof (induction seed rule: rev_induct)
  case Nil
  then show ?case by simp
next
  case (snoc x xs)
  obtain n d where x: "x = (n, d)" by (cases x)
  from snoc.prems x have ne: "ConsistentName im n (Sum256 im d) \<noteq> p" by simp
  from snoc.prems have "\<forall>(n, d) \<in> set xs. ConsistentName im n (Sum256 im d) \<noteq> p" by simp
  then have "map_of (add_seed im xs c) p = map_of c p" by (rule snoc.IH)
  with ne show ?case by (simp add: x add_seed_snoc update_conv')
qed

text \<open>
  The consistent name of a seed entry ends up holding its blob when every seed entry
  with that consistent name has that blob, whatever the order of the visit.
\<close>

lemma add_seed_entry:
  "(R, B) \<in> set seed \<Longrightarrow>
   \<forall>(n, d) \<in> set seed.
     ConsistentName im n (Sum256 im d) = ConsistentName im R (Sum256 im B) \<longrightarrow> d = B \<Longrightarrow>
   map_of (add_seed im seed c) (ConsistentName im R (Sum256 im B)) = Some B"
proof (induction seed rule: rev_induct)
  case Nil
  then show ?case by simp
next
  case (snoc x xs)
  obtain n d where x: "x = (n, d)" by (cases x)
  show ?case
  proof (cases "ConsistentName im n (Sum256 im d) = ConsistentName im R (Sum256 im B)")
    case True
    with snoc.prems(2) x have "d = B" by simp
    with True show ?thesis by (simp add: x add_seed_snoc update_conv')
  next
    case False
    with snoc.prems(1) x have "(R, B) \<in> set xs" by auto
    moreover from snoc.prems(2)
    have "\<forall>(n, d) \<in> set xs.
       ConsistentName im n (Sum256 im d) = ConsistentName im R (Sum256 im B) \<longrightarrow> d = B"
      by simp
    ultimately have "map_of (add_seed im xs c) (ConsistentName im R (Sum256 im B)) = Some B"
      by (rule snoc.IH)
    with False show ?thesis by (simp add: x add_seed_snoc update_conv')
  qed
qed

lemma NewMemoryStore_seed:
  "data (NewMemoryStore im (Some seed)) = seed"
  "consistent (NewMemoryStore im (Some seed)) = add_seed im seed []"
  by (simp_all add: NewMemoryStore_def)

lemma ListFiles_keys: "set (ListFiles m) = dom (map_of (data m))"
  by (simp add: ListFiles_def dom_map_of_conv_image_fst)

text \<open>
  The keys of a Go map are distinct. The operations keep the keys of the plain-name
  index distinct, so \<^verbatim>\<open>ListFiles\<close> lists every key once.
\<close>

lemma Set_distinct:
  "distinct (map fst (data m)) \<Longrightarrow> distinct (map fst (data (snd (Set im m name meta))))"
  by (simp add: Set_def Let_def distinct_update split: option.split)

lemma Remove_distinct:
  "distinct (map fst (data m)) \<Longrightarrow> distinct (map fst (data (snd (Remove im m name))))"
  by (simp add: Remove_def Let_def distinct_delete split: option.split)

lemma ListFiles_distinct: "distinct (map fst (data m)) \<Longrightarrow> distinct (ListFiles m)"
  by (simp add: ListFiles_def)

lemmas demo_defs =
  demo_def empty_store_def NewMemoryStore_def demo_ConsistentName_def hexbyte_def
  versionedName_def Sprintf_d_def decimal.simps digit_def

subsection \<open>The claims about \<^verbatim>\<open>Set\<close> and \<^verbatim>\<open>Get\<close>\<close>

text \<open>
  C2. For all blobs \<open>B\<close>, role names \<open>R\<close> and stores: \<open>Set R B\<close> returns no error, and in
  the store it leaves \<open>Get R\<close> returns exactly \<open>B\<close>.
\<close>

theorem C2_Get_after_Set:
  "fst (Set im m R B) = None \<and> Get (snd (Set im m R B)) R = Inr B"
  by (simp add: Set_error Get_def Set_data versionedName_neq split: option.split)

text \<open>
  C3, as stated, for every store: after \<open>Set R B\<close>, \<open>Get\<close> of the consistent name of
  \<open>(R, digest B)\<close> returns \<open>B\<close>. It fails where the plain-name index already holds
  another blob under that very name, since \<^verbatim>\<open>Get\<close> reads the plain-name index first:
  after \<^verbatim>\<open>Set("root.7b010a", [9, 9])\<close> and \<^verbatim>\<open>Set("root", [123, 1, 10])\<close>, \<^verbatim>\<open>Get\<close> of
  the consistent name of the second call returns the blob of the first.
\<close>

theorem C3_shadowed_counterexample:
  "Get (snd (Set demo (snd (Set demo empty_store ''root.7b010a'' [9, 9])) ''root'' [123, 1, 10]))
     (ConsistentName demo ''root'' (Sum256 demo [123, 1, 10])) = Inr [9, 9] \<and>
   Get (snd (Set demo (snd (Set demo empty_store ''root.7b010a'' [9, 9])) ''root'' [123, 1, 10]))
     (ConsistentName demo ''root'' (Sum256 demo [123, 1, 10])) \<noteq> Inr [123, 1, 10]"
  by (simp add: Get_def Set_def demo_defs)

text \<open>
  C3, amended. For all blobs \<open>B\<close>, role names \<open>R\<close> and stores: \<open>Set R B\<close> returns no
  error and leaves \<open>B\<close> in the digest index under the consistent name of
  \<open>(R, digest B)\<close>; and \<open>Get\<close> of that name returns exactly \<open>B\<close> provided the plain-name
  index, after the call, holds under that name nothing or \<open>B\<close> itself.
\<close>

theorem C3_Get_consistent_after_Set:
  "fst (Set im m R B) = None \<and>
   map_of (consistent (snd (Set im m R B))) (ConsistentName im R (Sum256 im B)) = Some B \<and>
   (map_of (data (snd (Set im m R B))) (ConsistentName im R (Sum256 im B)) = None
      \<or> map_of (data (snd (Set im m R B))) (ConsistentName im R (Sum256 im B)) = Some B \<longrightarrow>
    Get (snd (Set im m R B)) (ConsistentName im R (Sum256 im B)) = Inr B)"
  by (auto simp add: Set_error Get_def Set_consistent)

theorem C3_Get_consistent_after_Set_witness:
  "map_of (consistent (snd (Set demo empty_store ''root'' [123, 1, 10]))) ''root.7b010a''
     = Some [123, 1, 10] \<and>
   Get (snd (Set demo empty_store ''root'' [123, 1, 10])) ''root.7b010a'' = Inr [123, 1, 10]"
proof -
  have h: "map_of (data (snd (Set demo empty_store ''root'' [123, 1, 10])))
      (ConsistentName demo ''root'' (Sum256 demo [123, 1, 10])) = None"
    by (simp add: Set_def demo_defs)
  have n: "ConsistentName demo ''root'' (Sum256 demo [123, 1, 10]) = ''root.7b010a''"
    by (simp add: demo_defs)
  show ?thesis
    using C3_Get_consistent_after_Set [of demo empty_store "''root''" "[123, 1, 10]"] h
    by (simp add: n)
qed

text \<open>
  C4. For every blob \<open>B\<close> that parses as a signed-metadata envelope with an integer
  version \<open>V \<ge> 0\<close>, every role name \<open>R\<close> and every store: \<open>Set R B\<close> returns no error,
  and afterwards \<open>Get\<close> of the name \<^verbatim>\<open>"V.R"\<close>, the decimal notation of \<open>V\<close>, a dot and
  \<open>R\<close>, returns exactly \<open>B\<close>.
\<close>

theorem C4_Get_versioned_after_Set:
  assumes "Unmarshal im B = Some V" and "0 \<le> V"
  shows "fst (Set im m R B) = None \<and>
    Get (snd (Set im m R B)) (decimal (nat V) @ ''.'' @ R) = Inr B"
  using assms
  by (simp add: Set_error Get_def Set_data versionedName_def Sprintf_d_def)

text \<open>The versions 0, 42, 255 and 1203, the last with a parser that returns it.\<close>

theorem C4_Get_versioned_after_Set_witness:
  "Get (snd (Set demo empty_store ''root'' [123, 0, 10])) ''0.root'' = Inr [123, 0, 10] \<and>
   Get (snd (Set demo empty_store ''root'' [123, 42, 10])) ''42.root'' = Inr [123, 42, 10] \<and>
   Get (snd (Set demo empty_store ''targets'' [123, 255])) ''255.targets'' = Inr [123, 255] \<and>
   Get (snd (Set (demo\<lparr>Unmarshal := \<lambda>b. Some 1203\<rparr>) empty_store ''snapshot'' [7]))
     ''1203.snapshot'' = Inr [7]"
proof -
  have u0: "Unmarshal demo [123, 0, 10] = Some 0" by (simp add: demo_def)
  have u42: "Unmarshal demo [123, 42, 10] = Some 42" by (simp add: demo_def)
  have u255: "Unmarshal demo [123, 255] = Some 255" by (simp add: demo_def)
  have u1203: "Unmarshal (demo\<lparr>Unmarshal := \<lambda>b. Some 1203\<rparr>) [7] = Some 1203" by simp
  have p0: "(0::int) \<le> 0" by simp
  have p42: "(0::int) \<le> 42" by simp
  have p255: "(0::int) \<le> 255" by simp
  have p1203: "(0::int) \<le> 1203" by simp
  have k0: "decimal (nat 0) @ ''.'' @ ''root'' = ''0.root''"
    by (simp add: decimal.simps digit_def)
  have k42: "decimal (nat 42) @ ''.'' @ ''root'' = ''42.root''"
    by (simp add: decimal.simps digit_def)
  have k255: "decimal (nat 255) @ ''.'' @ ''targets'' = ''255.targets''"
    by (simp add: decimal.simps digit_def)
  have k1203: "decimal (nat 1203) @ ''.'' @ ''snapshot'' = ''1203.snapshot''"
    by (simp add: decimal.simps digit_def)
  have r0: "Get (snd (Set demo empty_store ''root'' [123, 0, 10])) ''0.root'' = Inr [123, 0, 10]"
    using C4_Get_versioned_after_Set [OF u0 p0, of empty_store "''root''"]
    by (simp only: k0)
  have r42: "Get (snd (Set demo empty_store ''root'' [123, 42, 10])) ''42.root''
      = Inr [123, 42, 10]"
    using C4_Get_versioned_after_Set [OF u42 p42, of empty_store "''root''"]
    by (simp only: k42)
  have r255: "Get (snd (Set demo empty_store ''targets'' [123, 255])) ''255.targets''
      = Inr [123, 255]"
    using C4_Get_versioned_after_Set [OF u255 p255, of empty_store "''targets''"]
    by (simp only: k255)
  have r1203: "Get (snd (Set (demo\<lparr>Unmarshal := \<lambda>b. Some 1203\<rparr>) empty_store ''snapshot'' [7]))
     ''1203.snapshot'' = Inr [7]"
    using C4_Get_versioned_after_Set [OF u1203 p1203, of empty_store "''snapshot''"]
    by (simp only: k1203)
  show ?thesis using r0 r42 r255 r1203 by simp
qed

subsection \<open>The claims about \<^verbatim>\<open>GetSized\<close>\<close>

text \<open>
  C1. The claim: on a name stored only in the digest index, \<open>GetSized name NoSizeLimit\<close>
  caps at the maximum download size and returns the stored blob or its prefix. The
  code does not: with the sentinel \<open>-1\<close>, after \<^verbatim>\<open>Set("root", [123, 1, 10])\<close> the name
  \<^verbatim>\<open>"root.7b010a"\<close> is in the digest index only, \<^verbatim>\<open>Get\<close> returns the blob, and
  \<^verbatim>\<open>GetSized\<close> with \<^verbatim>\<open>NoSizeLimit\<close> panics in the slice expression, while the same
  call on the plain name \<^verbatim>\<open>"root"\<close> returns the blob.
\<close>

theorem C1_GetSized_digest_name_NoSizeLimit_panics:
  "map_of (data (snd (Set demo empty_store ''root'' [123, 1, 10]))) ''root.7b010a'' = None \<and>
   ConsistentName demo ''root'' (Sum256 demo [123, 1, 10]) = ''root.7b010a'' \<and>
   Get (snd (Set demo empty_store ''root'' [123, 1, 10])) ''root.7b010a'' = Inr [123, 1, 10] \<and>
   GetSized demo (snd (Set demo empty_store ''root'' [123, 1, 10])) ''root.7b010a'' (NoSizeLimit demo)
     = Inl PanicSliceBounds \<and>
   GetSized demo (snd (Set demo empty_store ''root'' [123, 1, 10])) ''root'' (NoSizeLimit demo)
     = Inr [123, 1, 10]"
  by (simp add: GetSized_def Get_def Set_def slice_to_def demo_defs)

text \<open>
  C6. For every plain name \<open>R\<close> that holds \<open>B\<close> and every requested size \<open>S\<close> that is
  non-negative or the sentinel, with \<open>cap\<close> the maximum download size when \<open>S\<close> is the
  sentinel and \<open>S\<close> otherwise: \<open>GetSized R S\<close> returns \<open>B\<close> when the length of \<open>B\<close> is
  below \<open>cap\<close> and the first \<open>cap\<close> bytes of \<open>B\<close> otherwise, never an error. So it
  returns \<open>B\<close> unmodified when \<open>cap\<close> is at least the length of \<open>B\<close>, and
  \<open>GetSized R NoSizeLimit\<close> on a blob longer than the maximum download size returns
  the prefix of that size. The maximum download size is a size: it is not negative.
\<close>

theorem C6_GetSized_plain_name:
  assumes "map_of (data m) R = Some B"
    and "0 \<le> sint (MaxDownloadSize im)"
    and "S = NoSizeLimit im \<or> 0 \<le> sint S"
  shows "(let cap = (if S = NoSizeLimit im then MaxDownloadSize im else S) in
      GetSized im m R S =
        Inr (if int (length B) < sint cap then B else take (nat (sint cap)) B) \<and>
      (int (length B) \<le> sint cap \<longrightarrow> GetSized im m R S = Inr B)) \<and>
    (sint (MaxDownloadSize im) < int (length B) \<longrightarrow>
      GetSized im m R (NoSizeLimit im) = Inr (take (nat (sint (MaxDownloadSize im))) B))"
  using assms by (auto simp add: GetSized_def slice_to_def Let_def)

text \<open>The witness: a size below the length, a size equal to the length, and the
  sentinel on a blob one byte longer than the maximum download size.\<close>

theorem C6_GetSized_plain_name_witness:
  "GetSized demo (snd (Set demo empty_store ''root'' [123, 1, 10])) ''root'' 2 = Inr [123, 1] \<and>
   GetSized demo (snd (Set demo empty_store ''root'' [123, 1, 10])) ''root'' 3 = Inr [123, 1, 10] \<and>
   GetSized demo (NewMemoryStore demo (Some [(''timestamp'', replicate 104857601 7)]))
     ''timestamp'' (NoSizeLimit demo) = Inr (replicate 104857600 7)"
proof -
  let ?m = "snd (Set demo empty_store ''root'' [123, 1, 10])"
  let ?t = "NewMemoryStore demo (Some [(''timestamp'', replicate 104857601 7)])"
  have s: "map_of (data ?m) ''root'' = Some [123, 1, 10]"
    by (simp add: Set_def demo_defs)
  have t: "map_of (data ?t) ''timestamp'' = Some (replicate 104857601 7)"
    by (simp add: NewMemoryStore_def)
  have c: "0 \<le> sint (MaxDownloadSize demo)" by (simp add: demo_def)
  have a2: "(2 :: 64 word) = NoSizeLimit demo \<or> 0 \<le> sint (2 :: 64 word)" by simp
  have a3: "(3 :: 64 word) = NoSizeLimit demo \<or> 0 \<le> sint (3 :: 64 word)" by simp
  have an: "NoSizeLimit demo = NoSizeLimit demo \<or> 0 \<le> sint (NoSizeLimit demo)" by simp
  have r2: "GetSized demo ?m ''root'' 2 = Inr [123, 1]"
    using C6_GetSized_plain_name [OF s c a2] by (simp add: demo_def)
  have r3: "GetSized demo ?m ''root'' 3 = Inr [123, 1, 10]"
    using C6_GetSized_plain_name [OF s c a3] by (simp add: demo_def)
  have rn: "GetSized demo ?t ''timestamp'' (NoSizeLimit demo) = Inr (replicate 104857600 7)"
    using C6_GetSized_plain_name [OF t c an] by (simp add: demo_def)
  show ?thesis using r2 r3 rn by simp
qed

subsection \<open>The claims about \<^verbatim>\<open>Remove\<close>\<close>

text \<open>
  C8. For every name \<open>N\<close> that is not a key of the plain-name index, \<open>Remove N\<close>
  returns no error and the store it leaves is the store it was given, both indexes
  included.
\<close>

theorem C8_Remove_absent:
  "map_of (data m) N = None \<Longrightarrow> Remove im m N = (None, m)"
  by (simp add: Remove_def)

theorem C8_Remove_absent_witness:
  "map_of (data (snd (Set demo empty_store ''root'' [1, 2]))) ''targets'' = None \<and>
   Remove demo (snd (Set demo empty_store ''root'' [1, 2])) ''targets''
     = (None, snd (Set demo empty_store ''root'' [1, 2]))"
proof -
  have h: "map_of (data (snd (Set demo empty_store ''root'' [1, 2]))) ''targets'' = None"
    by (simp add: Set_def demo_defs)
  show ?thesis using h C8_Remove_absent [OF h] by simp
qed

text \<open>
  C7, as stated: when \<open>R\<close> holds \<open>B\<close> and the alias \<^verbatim>\<open>"V.R"\<close> holds \<open>B\<close>, then after
  \<open>Remove R\<close> both \<open>Get R\<close> and \<open>Get\<close> of the consistent name of \<open>(R, digest B)\<close> are
  NotFound. Both fail where the two indexes share a name, since \<^verbatim>\<open>Get\<close> reads both.
  First input: \<^verbatim>\<open>Set("root.7b010a", [9, 9])\<close>, \<^verbatim>\<open>Set("root", [123, 1, 10])\<close>,
  \<^verbatim>\<open>Remove("root")\<close>; \<^verbatim>\<open>Get\<close> of the consistent name of the removed blob finds the
  plain entry of the first call. Second input: \<^verbatim>\<open>Set("a", [9, 9])\<close>,
  \<^verbatim>\<open>Set("a.0909", [123, 1, 10])\<close>, \<^verbatim>\<open>Remove("a.0909")\<close>; \<^verbatim>\<open>Get("a.0909")\<close> finds the
  digest entry of the first call.
\<close>

theorem C7_shared_name_counterexample:
  "map_of (data (snd (Set demo (snd (Set demo empty_store ''root.7b010a'' [9, 9])) ''root'' [123, 1, 10])))
     ''1.root'' = Some [123, 1, 10] \<and>
   Get (snd (Remove demo
          (snd (Set demo (snd (Set demo empty_store ''root.7b010a'' [9, 9])) ''root'' [123, 1, 10]))
          ''root''))
     (ConsistentName demo ''root'' (Sum256 demo [123, 1, 10])) = Inr [9, 9] \<and>
   map_of (data (snd (Set demo (snd (Set demo empty_store ''a'' [9, 9])) ''a.0909'' [123, 1, 10])))
     ''1.a.0909'' = Some [123, 1, 10] \<and>
   Get (snd (Remove demo
          (snd (Set demo (snd (Set demo empty_store ''a'' [9, 9])) ''a.0909'' [123, 1, 10]))
          ''a.0909''))
     ''a.0909'' = Inr [9, 9]"
  by (simp add: Get_def Set_def Remove_def demo_defs)

text \<open>
  C7, amended. For every role name \<open>R\<close> that holds \<open>B\<close> while the alias \<^verbatim>\<open>"V.R"\<close> holds
  \<open>B\<close>: \<open>Remove R\<close> returns no error, deletes the entry of \<open>R\<close> from the plain-name
  index and the entry of the consistent name of \<open>(R, digest B)\<close> from the digest index,
  and \<open>Get\<close> of \<^verbatim>\<open>"V.R"\<close> still returns \<open>B\<close>. \<open>Get R\<close> is NotFound provided \<open>R\<close> is not a
  key of the digest index (or is that consistent name itself), and \<open>Get\<close> of the
  consistent name is NotFound provided that name is not a key of the plain-name index
  (or is \<open>R\<close> itself).
\<close>

theorem C7_Remove_keeps_version_alias:
  assumes "map_of (data m) R = Some B"
    and "map_of (data m) (versionedName V R) = Some B"
  shows "fst (Remove im m R) = None \<and>
    map_of (data (snd (Remove im m R))) R = None \<and>
    map_of (consistent (snd (Remove im m R))) (ConsistentName im R (Sum256 im B)) = None \<and>
    Get (snd (Remove im m R)) (versionedName V R) = Inr B \<and>
    (map_of (consistent m) R = None \<or> R = ConsistentName im R (Sum256 im B) \<longrightarrow>
       Get (snd (Remove im m R)) R = Inl (ErrMetaNotFound R)) \<and>
    (map_of (data m) (ConsistentName im R (Sum256 im B)) = None
       \<or> ConsistentName im R (Sum256 im B) = R \<longrightarrow>
       Get (snd (Remove im m R)) (ConsistentName im R (Sum256 im B))
         = Inl (ErrMetaNotFound (ConsistentName im R (Sum256 im B))))"
  using assms
  by (auto simp add: Remove_error Get_def Remove_data Remove_consistent versionedName_neq)

theorem C7_Remove_keeps_version_alias_witness:
  "Get (snd (Remove demo (snd (Set demo empty_store ''root'' [123, 1, 10])) ''root'')) ''root''
     = Inl (ErrMetaNotFound ''root'') \<and>
   Get (snd (Remove demo (snd (Set demo empty_store ''root'' [123, 1, 10])) ''root'')) ''root.7b010a''
     = Inl (ErrMetaNotFound ''root.7b010a'') \<and>
   Get (snd (Remove demo (snd (Set demo empty_store ''root'' [123, 1, 10])) ''root'')) ''1.root''
     = Inr [123, 1, 10]"
proof -
  let ?m = "snd (Set demo empty_store ''root'' [123, 1, 10])"
  have n: "ConsistentName demo ''root'' (Sum256 demo [123, 1, 10]) = ''root.7b010a''"
    by (simp add: demo_defs)
  have v: "versionedName 1 ''root'' = ''1.root''" by (simp add: demo_defs)
  have h1: "map_of (data ?m) ''root'' = Some [123, 1, 10]"
    by (simp add: Set_def demo_defs)
  have h2: "map_of (data ?m) (versionedName 1 ''root'') = Some [123, 1, 10]"
    by (simp add: Set_def demo_defs)
  have h3: "map_of (consistent ?m) ''root'' = None"
    by (simp add: Set_def demo_defs)
  have h4: "map_of (data ?m) ''root.7b010a'' = None"
    by (simp add: Set_def demo_defs)
  show ?thesis
    using C7_Remove_keeps_version_alias [OF h1 h2, of demo] h3 h4 by (simp add: n v)
qed

text \<open>
  C10, as stated, for every store: after \<open>Set R B1\<close>, \<open>Set R B2\<close> and \<open>Remove R\<close>, \<open>Get\<close>
  of the consistent name of \<open>(R, digest B1)\<close> returns \<open>B1\<close>. It fails where the
  plain-name index holds another blob under that name: on a store that went through
  \<^verbatim>\<open>Set("root.7b010a", [9, 9])\<close>, the three calls with \<^verbatim>\<open>"root"\<close>, \<^verbatim>\<open>[123, 1, 10]\<close> and
  \<^verbatim>\<open>[123, 2, 20]\<close> leave \<^verbatim>\<open>Get("root.7b010a")\<close> returning \<^verbatim>\<open>[9, 9]\<close>.
\<close>

theorem C10_shadowed_counterexample:
  "[123, 1, 10] \<noteq> ([123, 2, 20] :: blob) \<and>
   Get (snd (Remove demo
     (snd (Set demo
       (snd (Set demo (snd (Set demo empty_store ''root.7b010a'' [9, 9])) ''root'' [123, 1, 10]))
       ''root'' [123, 2, 20]))
     ''root''))
     (ConsistentName demo ''root'' (Sum256 demo [123, 1, 10])) = Inr [9, 9]"
  by (simp add: Get_def Set_def Remove_def demo_defs)

text \<open>
  C10, amended. For every role \<open>R\<close>, every store and blobs \<open>B1\<close>, \<open>B2\<close> whose consistent
  names under \<open>R\<close> differ (the digests of distinct blobs do not collide): after
  \<open>Set R B1\<close>, \<open>Set R B2\<close> and \<open>Remove R\<close>, which returns no error, the digest index
  still holds \<open>B1\<close> under the consistent name of \<open>(R, digest B1)\<close>, and \<open>Get\<close> of that
  name returns \<open>B1\<close> provided the plain-name index then holds under that name nothing
  or \<open>B1\<close> itself.
\<close>

theorem C10_Remove_keeps_overwritten_digest:
  assumes "ConsistentName im R (Sum256 im B1) \<noteq> ConsistentName im R (Sum256 im B2)"
  shows "fst (Remove im (snd (Set im (snd (Set im m R B1)) R B2)) R) = None \<and>
    map_of (consistent (snd (Remove im (snd (Set im (snd (Set im m R B1)) R B2)) R)))
      (ConsistentName im R (Sum256 im B1)) = Some B1 \<and>
    (map_of (data (snd (Remove im (snd (Set im (snd (Set im m R B1)) R B2)) R)))
        (ConsistentName im R (Sum256 im B1)) = None
      \<or> map_of (data (snd (Remove im (snd (Set im (snd (Set im m R B1)) R B2)) R)))
        (ConsistentName im R (Sum256 im B1)) = Some B1 \<longrightarrow>
     Get (snd (Remove im (snd (Set im (snd (Set im m R B1)) R B2)) R))
       (ConsistentName im R (Sum256 im B1)) = Inr B1)"
proof -
  let ?m2 = "snd (Set im (snd (Set im m R B1)) R B2)"
  let ?m3 = "snd (Remove im ?m2 R)"
  let ?p1 = "ConsistentName im R (Sum256 im B1)"
  have cur: "map_of (data ?m2) R = Some B2"
    by (simp add: Set_data versionedName_neq split: option.split)
  have dig: "map_of (consistent ?m3) ?p1 = Some B1"
    using assms by (simp add: Remove_consistent [OF cur] Set_consistent)
  then show ?thesis by (auto simp add: Remove_error Get_def)
qed

theorem C10_Remove_keeps_overwritten_digest_witness:
  "Get (snd (Remove demo
     (snd (Set demo (snd (Set demo empty_store ''root'' [123, 1, 10])) ''root'' [123, 2, 20]))
     ''root'')) ''root.7b010a'' = Inr [123, 1, 10]"
proof -
  let ?m3 = "snd (Remove demo
     (snd (Set demo (snd (Set demo empty_store ''root'' [123, 1, 10])) ''root'' [123, 2, 20]))
     ''root'')"
  have n: "ConsistentName demo ''root'' (Sum256 demo [123, 1, 10]) = ''root.7b010a''"
    by (simp add: demo_defs)
  have h: "ConsistentName demo ''root'' (Sum256 demo [123, 1, 10])
      \<noteq> ConsistentName demo ''root'' (Sum256 demo [123, 2, 20])"
    by (simp add: demo_defs)
  have k: "map_of (data ?m3) ''root.7b010a'' = None"
    by (simp add: Set_def Remove_def demo_defs)
  show ?thesis
    using C10_Remove_keeps_overwritten_digest [OF h, of empty_store] k by (simp add: n)
qed

subsection \<open>The claim about \<^verbatim>\<open>ListFiles\<close>\<close>

text \<open>
  C5, as stated: version-prefixed aliases are excluded from the names \<^verbatim>\<open>ListFiles\<close>
  returns. \<^verbatim>\<open>Set\<close> writes the alias into the same map as the plain name, and
  \<^verbatim>\<open>ListFiles\<close> ranges over that map: after \<^verbatim>\<open>Set("root", [123, 1, 10])\<close> on an empty
  store, with a blob of version 1, the names listed are \<^verbatim>\<open>"root"\<close> and \<^verbatim>\<open>"1.root"\<close>.
\<close>

theorem C5_alias_listed_counterexample:
  "Unmarshal demo [123, 1, 10] = Some 1 \<and>
   ''1.root'' \<in> set (ListFiles (snd (Set demo empty_store ''root'' [123, 1, 10]))) \<and>
   set (ListFiles (snd (Set demo empty_store ''root'' [123, 1, 10]))) = {''root'', ''1.root''}"
  by (simp add: ListFiles_def Set_def demo_defs)

text \<open>
  C5, amended. \<^verbatim>\<open>ListFiles\<close> returns exactly the keys of the plain-name index. These
  include the version-prefixed alias \<^verbatim>\<open>"V.R"\<close> that \<open>Set R B\<close> creates for a blob of
  version \<open>V\<close>; a name that is not a key of the plain-name index, such as a name held
  by the digest index only, is not returned.
\<close>

theorem C5_ListFiles_plain_index_keys:
  "set (ListFiles m) = {n. map_of (data m) n \<noteq> None} \<and>
   (map_of (data m) n = None \<longrightarrow> n \<notin> set (ListFiles m)) \<and>
   (Unmarshal im B = Some V \<longrightarrow> versionedName V R \<in> set (ListFiles (snd (Set im m R B))))"
  by (auto simp add: ListFiles_keys Set_data dom_def)

theorem C5_ListFiles_plain_index_keys_witness:
  "set (ListFiles (snd (Set demo empty_store ''root'' [123, 1, 10]))) = {''root'', ''1.root''} \<and>
   ''root.7b010a'' \<notin> set (ListFiles (snd (Set demo empty_store ''root'' [123, 1, 10]))) \<and>
   Get (snd (Set demo empty_store ''root'' [123, 1, 10])) ''root.7b010a'' = Inr [123, 1, 10]"
proof -
  let ?m = "snd (Set demo empty_store ''root'' [123, 1, 10])"
  have h1: "map_of (data ?m) ''root.7b010a'' = None"
    by (simp add: Set_def demo_defs)
  have h2: "Unmarshal demo [123, 1, 10] = Some 1" by (simp add: demo_def)
  have k: "{n. map_of (data ?m) n \<noteq> None} = {''root'', ''1.root''}"
    by (auto simp add: Set_def demo_defs split: if_splits)
  have g: "Get ?m ''root.7b010a'' = Inr [123, 1, 10]"
    by (simp add: Get_def Set_def demo_defs)
  show ?thesis
    using h1 h2 k g
      C5_ListFiles_plain_index_keys [of ?m "''root.7b010a''" demo "[123, 1, 10]" 1 "''root''"]
    by simp
qed

subsection \<open>The claim about \<^verbatim>\<open>NewMemoryStore\<close>\<close>

text \<open>
  C9, as stated: every seed entry \<open>(R, B)\<close> is retrievable by \<open>Get\<close> of the consistent
  name of \<open>(R, digest B)\<close>. It fails for a seed that holds another blob under that
  very name: with the seed \<^verbatim>\<open>{"root": [123, 1, 10], "root.7b010a": [9, 9]}\<close>, \<^verbatim>\<open>Get\<close> of
  the consistent name of the first entry returns the blob of the second.
\<close>

theorem C9_shadowed_seed_counterexample:
  "map_of [(''root'', [123, 1, 10]), (''root.7b010a'', [9, 9])] ''root'' = Some [123, 1, 10] \<and>
   Get (NewMemoryStore demo (Some [(''root'', [123, 1, 10]), (''root.7b010a'', [9, 9])]))
     (ConsistentName demo ''root'' (Sum256 demo [123, 1, 10])) = Inr [9, 9]"
  by (simp add: Get_def demo_defs)

text \<open>
  C9, amended. For every seed and every seed entry \<open>(R, B)\<close>, in every order of the
  visit: the plain-name index of the new store is the seed itself, so no
  version-prefixed alias is added to it, and \<open>Get R\<close> returns \<open>B\<close>. The digest index
  holds \<open>B\<close> under the consistent name of \<open>(R, digest B)\<close> provided no seed entry with
  another blob has the same consistent name, and then \<open>Get\<close> of that name returns \<open>B\<close>
  provided the seed holds under that name nothing or \<open>B\<close> itself. For every \<open>V\<close>, also
  the version of \<open>B\<close>: when \<^verbatim>\<open>"V.R"\<close> is not a seed key it is not a key of the
  plain-name index, and \<open>Get\<close> of it is NotFound unless it is the consistent name of a
  seed entry.
\<close>

theorem C9_NewMemoryStore_seed:
  assumes "map_of seed R = Some B"
  shows "data (NewMemoryStore im (Some seed)) = seed \<and>
    Get (NewMemoryStore im (Some seed)) R = Inr B \<and>
    ((\<forall>(n, d) \<in> set seed.
        ConsistentName im n (Sum256 im d) = ConsistentName im R (Sum256 im B) \<longrightarrow> d = B) \<longrightarrow>
      map_of (consistent (NewMemoryStore im (Some seed))) (ConsistentName im R (Sum256 im B)) = Some B \<and>
      (map_of seed (ConsistentName im R (Sum256 im B)) = None
         \<or> map_of seed (ConsistentName im R (Sum256 im B)) = Some B \<longrightarrow>
       Get (NewMemoryStore im (Some seed)) (ConsistentName im R (Sum256 im B)) = Inr B)) \<and>
    (map_of seed (versionedName V R) = None \<longrightarrow>
       map_of (data (NewMemoryStore im (Some seed))) (versionedName V R) = None \<and>
       ((\<forall>(n, d) \<in> set seed. ConsistentName im n (Sum256 im d) \<noteq> versionedName V R) \<longrightarrow>
         Get (NewMemoryStore im (Some seed)) (versionedName V R)
           = Inl (ErrMetaNotFound (versionedName V R))))"
proof -
  let ?s = "NewMemoryStore im (Some seed)"
  let ?p = "ConsistentName im R (Sum256 im B)"
  from assms have mem: "(R, B) \<in> set seed" by (rule map_of_SomeD)
  have a: "data ?s = seed" by (simp add: NewMemoryStore_seed)
  have b: "Get ?s R = Inr B" using assms by (simp add: Get_def NewMemoryStore_seed)
  have c: "map_of (consistent ?s) ?p = Some B"
    if "\<forall>(n, d) \<in> set seed. ConsistentName im n (Sum256 im d) = ?p \<longrightarrow> d = B"
    using add_seed_entry [OF mem that] by (simp add: NewMemoryStore_seed)
  have d: "Get ?s ?p = Inr B"
    if "\<forall>(n, d) \<in> set seed. ConsistentName im n (Sum256 im d) = ?p \<longrightarrow> d = B"
      and "map_of seed ?p = None \<or> map_of seed ?p = Some B"
    using c [OF that(1)] that(2) by (auto simp add: Get_def a)
  have e: "Get ?s (versionedName V R) = Inl (ErrMetaNotFound (versionedName V R))"
    if "map_of seed (versionedName V R) = None"
      and "\<forall>(n, d) \<in> set seed. ConsistentName im n (Sum256 im d) \<noteq> versionedName V R"
    using that(1) add_seed_other [OF that(2), of "[]"]
    by (simp add: Get_def NewMemoryStore_seed)
  show ?thesis using a b c d e by simp
qed

theorem C9_NewMemoryStore_seed_witness:
  "Unmarshal demo [123, 1, 10] = Some 1 \<and>
   Get (NewMemoryStore demo (Some [(''root'', [123, 1, 10]), (''targets'', [5])])) ''root''
     = Inr [123, 1, 10] \<and>
   Get (NewMemoryStore demo (Some [(''root'', [123, 1, 10]), (''targets'', [5])])) ''root.7b010a''
     = Inr [123, 1, 10] \<and>
   Get (NewMemoryStore demo (Some [(''root'', [123, 1, 10]), (''targets'', [5])])) ''1.root''
     = Inl (ErrMetaNotFound ''1.root'')"
proof -
  let ?seed = "[(''root'', [123, 1, 10]), (''targets'', [5])] :: gomap"
  have n: "ConsistentName demo ''root'' (Sum256 demo [123, 1, 10]) = ''root.7b010a''"
    by (simp add: demo_defs)
  have v: "versionedName 1 ''root'' = ''1.root''" by (simp add: demo_defs)
  have u: "Unmarshal demo [123, 1, 10] = Some 1" by (simp add: demo_def)
  have h: "map_of ?seed ''root'' = Some [123, 1, 10]" by simp
  have h1: "\<forall>(n, d) \<in> set ?seed.
      ConsistentName demo n (Sum256 demo d) = ''root.7b010a'' \<longrightarrow> d = [123, 1, 10]"
    by (simp add: demo_defs)
  have h2: "map_of ?seed ''root.7b010a'' = None" by simp
  have h3: "map_of ?seed ''1.root'' = None" by simp
  have h4: "\<forall>(n, d) \<in> set ?seed. ConsistentName demo n (Sum256 demo d) \<noteq> ''1.root''"
    by (simp add: demo_defs)
  show ?thesis
    using C9_NewMemoryStore_seed [OF h, of demo 1] h1 h2 h3 h4 u by (simp add: n v)
qed

end
